theory Spec2Isabelle
  imports Main "HOL-Library.Multiset"
begin

section \<open>JavaScript values used by \<open>docker.ts\<close>\<close>

text \<open>
  The fields of a \<open>DockerMount\<close> are declared \<open>string\<close>, but \<open>parts[1]\<close> is
  \<open>undefined\<close> when a segment has no \<open>=\<close>, and the assignment stores it unchanged.
  A value read from an array is therefore a string or \<open>undefined\<close>.
\<close>

datatype js_value = JSString string | JSUndefined

text \<open>Interpolation of a value in a template literal (\<open>`${v}`\<close>).\<close>

fun js_to_string :: "js_value \<Rightarrow> string" where
  "js_to_string (JSString s) = s"
| "js_to_string JSUndefined = ''undefined''"

text \<open>\<open>new Error(message)\<close>; a rejected promise of a collaborator carries one too.\<close>

datatype error = Error string

text \<open>
  \<open>s.split(sep)\<close> for a separator of one character: the pieces between the
  occurrences of the separator, in order. The result is never empty:
  \<open>''.split(',')\<close> is \<open>['']\<close>.
\<close>

fun split_on :: "char \<Rightarrow> string \<Rightarrow> string list" where
  "split_on sep [] = [[]]"
| "split_on sep (c # cs) =
     (if c = sep then [] # split_on sep cs
      else (case split_on sep cs of
              [] \<Rightarrow> [[c]]
            | p # ps \<Rightarrow> (c # p) # ps))"

text \<open>\<open>parts[i]\<close>: reading an array past its end gives \<open>undefined\<close>.\<close>

definition js_index :: "string list \<Rightarrow> nat \<Rightarrow> js_value" where
  "js_index xs i = (if i < length xs then JSString (xs ! i) else JSUndefined)"

text \<open>A string between single quotes, as in \<open>`'${m}'`\<close>.\<close>

definition quoted :: "string \<Rightarrow> string" where
  "quoted s = CHR 0x27 # s @ [CHR 0x27]"

section \<open>The mount parser\<close>

record DockerMount =
  type :: js_value
  source :: js_value
  target :: js_value

text \<open>
  One iteration of the \<open>for (const option of options)\<close> loop of \<open>parseMount\<close>: the
  \<open>switch\<close> on \<open>parts[0]\<close>. The three local variables are the fields of the state;
  the \<open>throw\<close> of the default case is \<open>Inl\<close>.
\<close>

definition mount_option :: "DockerMount \<Rightarrow> string \<Rightarrow> error + DockerMount" where
  "mount_option st option =
     (let parts = split_on CHR ''='' option;
          key = js_index parts 0
      in if key = JSString ''type'' then Inr (st\<lparr>type := js_index parts 1\<rparr>)
         else if key = JSString ''src'' \<or> key = JSString ''source''
           then Inr (st\<lparr>source := js_index parts 1\<rparr>)
         else if key = JSString ''dst'' \<or> key = JSString ''destination''
                 \<or> key = JSString ''target''
           then Inr (st\<lparr>target := js_index parts 1\<rparr>)
         else if key = JSString ''readonly'' \<or> key = JSString ''ro''
           then Inr st
         else Inl (Error (''Unhandled mount option '' @ quoted (js_to_string key))))"

text \<open>The loop: it stops at the first option that throws.\<close>

fun parse_options :: "DockerMount \<Rightarrow> string list \<Rightarrow> error + DockerMount" where
  "parse_options st [] = Inr st"
| "parse_options st (option # options) =
     (case mount_option st option of
        Inl e \<Rightarrow> Inl e
      | Inr st' \<Rightarrow> parse_options st' options)"

definition parseMount :: "string \<Rightarrow> error + DockerMount" where
  "parseMount mountString =
     parse_options \<lparr>type = JSString '''', source = JSString '''', target = JSString ''''\<rparr>
       (split_on CHR '','' mountString)"

section \<open>Configuration, collaborators and the observable world\<close>

text \<open>
  Modelled from the spec: the type declaration of the devcontainer configuration lives in
  \<open>./config\<close>, which is not part of the sources; these are the fields the spec lists.
  An optional field is an \<open>option\<close>. The object \<open>build.args\<close> is the list of its
  entries in the order \<open>for ... in\<close> enumerates its keys, so \<open>buildArgs[argName]\<close> is
  the value paired with \<open>argName\<close>.
\<close>

record BuildConfig =
  dockerfile :: "string option"
  buildContext :: "string option"
  args :: "(string \<times> string) list option"

record DevContainerConfig =
  build :: "BuildConfig option"
  mounts :: "string list option"
  runArgs :: "string list option"
  workspaceFolder :: "string option"
  remoteUser :: "string option"

text \<open>
  Everything \<open>docker.ts\<close> imports or receives and does not define: the process runner
  \<open>exec\<close> (its promise resolves to an exit code or rejects), the accessors of
  \<open>./config\<close>, \<open>substituteValues\<close>, \<open>getAbsolutePath\<close>, \<open>path.join\<close>,
  \<open>process.cwd()\<close> and \<open>fs.existsSync\<close>; and, of the JavaScript runtime, the
  exponent form in which it prints a large number. They are parameters of the model.
\<close>

record collaborators =
  exec :: "string \<Rightarrow> string list \<Rightarrow> error + int"
  loadFromFile :: "string \<Rightarrow> error + DevContainerConfig"
  getDockerfile :: "DevContainerConfig \<Rightarrow> string option"
  getContext :: "DevContainerConfig \<Rightarrow> string option"
  getWorkspaceFolder :: "DevContainerConfig \<Rightarrow> string \<Rightarrow> string"
  getRemoteUser :: "DevContainerConfig \<Rightarrow> string"
  substituteValues :: "string \<Rightarrow> string"
  getAbsolutePath :: "string \<Rightarrow> string \<Rightarrow> string"
  path_join :: "string list \<Rightarrow> string"
  cwd :: string
  existsSync :: "js_value \<Rightarrow> bool"
  number_exponent_form :: "int \<Rightarrow> string"

text \<open>
  Exit codes are JavaScript numbers holding an integer; they are modelled as \<open>int\<close>.
  Interpolated in a template literal (\<open>`${exitCode}`\<close>), an integer of magnitude below
  \<open>10^21\<close> is its decimal numeral, with \<open>-\<close> in front when negative. From \<open>10^21\<close>
  on JavaScript prints the exponent form of the floating-point value (\<open>1e+21\<close>), which
  is the runtime's \<open>number_exponent_form\<close>.
\<close>

fun digits :: "nat \<Rightarrow> string" where
  "digits n =
     (if n < 10 then [''0123456789'' ! n]
      else digits (n div 10) @ [''0123456789'' ! (n mod 10)])"

declare digits.simps [simp del]

definition number_to_string :: "collaborators \<Rightarrow> int \<Rightarrow> string" where
  "number_to_string env i =
     (if \<bar>i\<bar> < 10 ^ 21
      then (if i < 0 then CHR ''-'' # digits (nat (- i)) else digits (nat i))
      else number_exponent_form env i)"

text \<open>
  What a caller can observe besides the result: the invocations of the process runner
  (command and argument vector, oldest first) and the lines written by \<open>console.log\<close>.
\<close>

record world =
  exec_calls :: "(string \<times> string list) list"
  console :: "string list"

definition call_exec ::
  "collaborators \<Rightarrow> string \<Rightarrow> string list \<Rightarrow> world \<Rightarrow> (error + int) \<times> world" where
  "call_exec env cmd argv w =
     (exec env cmd argv, w\<lparr>exec_calls := exec_calls w @ [(cmd, argv)]\<rparr>)"

definition console_log :: "string \<Rightarrow> world \<Rightarrow> world" where
  "console_log line w = w\<lparr>console := console w @ [line]\<rparr>"

text \<open>
  The tail shared by the three orchestrators: \<open>await exec('docker', args)\<close>, then
  \<open>throw new Error(`<what> failed with ${exitCode}`)\<close> when the code is not 0.
\<close>

definition exec_checked ::
  "collaborators \<Rightarrow> string \<Rightarrow> string list \<Rightarrow> world \<Rightarrow> (error + unit) \<times> world" where
  "exec_checked env what argv w =
     (case call_exec env ''docker'' argv w of
        (Inl e, w') \<Rightarrow> (Inl e, w')
      | (Inr exitCode, w') \<Rightarrow>
          if exitCode \<noteq> 0
          then (Inl (Error (what @ '' failed with '' @ number_to_string env exitCode)), w')
          else (Inr (), w'))"

section \<open>The orchestrators\<close>

definition isDockerBuildXInstalled :: "collaborators \<Rightarrow> world \<Rightarrow> (error + bool) \<times> world" where
  "isDockerBuildXInstalled env w =
     (case call_exec env ''docker'' [''buildx'', ''--help''] w of
        (Inl e, w') \<Rightarrow> (Inl e, w')
      | (Inr exitCode, w') \<Rightarrow> (Inr (exitCode = 0), w'))"

text \<open>The message of the error thrown when \<open>!configDockerfile\<close>.\<close>

definition dockerfile_not_set :: string where
  "dockerfile_not_set =
     ''dockerfile not set in devcontainer.json - devcontainer-build-run ''
     @ ''currently only supports Dockerfile-based dev containers''"

text \<open>\<open>for (const argName in buildArgs)\<close>; no iteration when \<open>buildArgs\<close> is undefined.\<close>

fun push_build_args ::
  "collaborators \<Rightarrow> (string \<times> string) list \<Rightarrow> string list \<Rightarrow> string list" where
  "push_build_args env [] argv = argv"
| "push_build_args env ((argName, raw) # rest) argv =
     (let argValue = substituteValues env raw
      in push_build_args env rest (argv @ [''--build-arg'', argName @ ''='' @ argValue]))"

definition build_args_of :: "DevContainerConfig \<Rightarrow> (string \<times> string) list" where
  "build_args_of devcontainerConfig =
     (case build devcontainerConfig of
        None \<Rightarrow> []
      | Some b \<Rightarrow> (case args b of None \<Rightarrow> [] | Some kvs \<Rightarrow> kvs))"

definition buildImage ::
  "collaborators \<Rightarrow> string \<Rightarrow> string \<Rightarrow> string \<Rightarrow> world \<Rightarrow> (error + unit) \<times> world" where
  "buildImage env imageName checkoutPath subFolder w =
     (let folder = path_join env [checkoutPath, subFolder];
          devcontainerJsonPath = path_join env [folder, ''.devcontainer/devcontainer.json'']
      in case loadFromFile env devcontainerJsonPath of
           Inl e \<Rightarrow> (Inl e, w)
         | Inr devcontainerConfig \<Rightarrow>
             (case getDockerfile env devcontainerConfig of
                None \<Rightarrow> (Inl (Error dockerfile_not_set), w)
              | Some configDockerfile \<Rightarrow>
                  if configDockerfile = ''''
                  then (Inl (Error dockerfile_not_set), w)
                  else
                   (let dockerfilePath =
                          path_join env [folder, ''.devcontainer'', configDockerfile];
                        configContext =
                          (case getContext env devcontainerConfig of
                             None \<Rightarrow> '''' | Some c \<Rightarrow> c);
                        contextPath = path_join env [folder, ''.devcontainer'', configContext];
                        argv0 = [''buildx'', ''build''] @ [''--tag''] @ [imageName @ '':latest'']
                          @ [''--cache-from''] @ [''type=registry,ref='' @ imageName @ '':latest'']
                          @ [''--cache-to''] @ [''type=inline''] @ [''--output=type=docker''];
                        argv1 = push_build_args env (build_args_of devcontainerConfig) argv0;
                        argv2 = argv1 @ [''-f'', dockerfilePath] @ [contextPath]
                    in exec_checked env ''build'' argv2 w)))"

text \<open>
  The callback of \<open>devcontainerConfig.mounts.map(...).forEach(...)\<close> over the
  substituted mount strings: a \<open>throw\<close> of \<open>parseMount\<close> leaves the loop and the
  function; \<open>return\<close> after the diagnostic goes on with the next mount.
\<close>

fun push_mounts ::
  "collaborators \<Rightarrow> string list \<Rightarrow> string list \<Rightarrow> world \<Rightarrow> (error + string list) \<times> world" where
  "push_mounts env [] argv w = (Inr argv, w)"
| "push_mounts env (m # ms) argv w =
     (case parseMount m of
        Inl e \<Rightarrow> (Inl e, w)
      | Inr mount \<Rightarrow>
          if type mount = JSString ''bind'' \<and> \<not> existsSync env (source mount)
          then push_mounts env ms argv
                 (console_log (''Skipping mount as source does not exist: '' @ quoted m) w)
          else push_mounts env ms (argv @ [''--mount'', m]) w)"

text \<open>\<open>for (const env of envs) args.push('--env', env)\<close>.\<close>

fun push_envs :: "string list \<Rightarrow> string list \<Rightarrow> string list" where
  "push_envs [] argv = argv"
| "push_envs (e # es) argv = push_envs es (argv @ [''--env'', e])"

text \<open>
  The seventh parameter of the source is called \<open>mounts\<close>; it is \<open>mounts'\<close> here,
  since \<open>mounts\<close> is the field of the configuration.
\<close>

definition runContainer ::
  "collaborators \<Rightarrow> string \<Rightarrow> string \<Rightarrow> string \<Rightarrow> string \<Rightarrow> string list option
     \<Rightarrow> string list option \<Rightarrow> world \<Rightarrow> (error + unit) \<times> world" where
  "runContainer env imageName checkoutPath subFolder command envs mounts' w =
     (let checkoutPathAbsolute = getAbsolutePath env checkoutPath (cwd env);
          folder = path_join env [checkoutPathAbsolute, subFolder];
          devcontainerJsonPath = path_join env [folder, ''.devcontainer/devcontainer.json'']
      in case loadFromFile env devcontainerJsonPath of
           Inl e \<Rightarrow> (Inl e, w)
         | Inr devcontainerConfig \<Rightarrow>
             (let workspaceFolder' = getWorkspaceFolder env devcontainerConfig folder;
                  remoteUser' = getRemoteUser env devcontainerConfig;
                  argv0 = [''run''] @ [''--mount'',
                    ''type=bind,src='' @ checkoutPathAbsolute @ '',dst='' @ workspaceFolder']
              in case (case mounts devcontainerConfig of
                         None \<Rightarrow> (Inr argv0, w)
                       | Some ms \<Rightarrow> push_mounts env (map (substituteValues env) ms) argv0 w) of
                   (Inl e, w1) \<Rightarrow> (Inl e, w1)
                 | (Inr argv1, w1) \<Rightarrow>
                     (let argv2 = argv1 @ [''--workdir'', workspaceFolder'];
                          argv3 = argv2 @ [''--user'', remoteUser'];
                          argv4 = (case runArgs devcontainerConfig of
                                     None \<Rightarrow> argv3
                                   | Some ras \<Rightarrow> argv3 @ map (substituteValues env) ras);
                          argv5 = (case envs of None \<Rightarrow> argv4 | Some es \<Rightarrow> push_envs es argv4);
                          argv6 = argv5 @ [imageName @ '':latest''];
                          argv7 = argv6 @ [''bash'', ''-c'',
                                    ''sudo chown -R $(whoami) . && '' @ command]
                      in exec_checked env ''run'' argv7 w1)))"


section \<open>Vocabulary of the properties\<close>

subsection \<open>Mount strings\<close>

text \<open>The key of a segment: the text before its first \<open>=\<close>; its value: \<open>parts[1]\<close>.\<close>

definition option_key :: "string \<Rightarrow> string" where
  "option_key option = takeWhile (\<lambda>c. c \<noteq> CHR ''='') option"

definition option_value :: "string \<Rightarrow> js_value" where
  "option_value option = js_index (split_on CHR ''='' option) 1"

definition type_keys :: "string list" where
  "type_keys = [''type'']"

definition source_keys :: "string list" where
  "source_keys = [''src'', ''source'']"

definition target_keys :: "string list" where
  "target_keys = [''dst'', ''destination'', ''target'']"

definition readonly_keys :: "string list" where
  "readonly_keys = [''readonly'', ''ro'']"

definition value_keys :: "string list" where
  "value_keys = type_keys @ source_keys @ target_keys"

definition recognized :: "string \<Rightarrow> bool" where
  "recognized key = (key \<in> set (type_keys @ source_keys @ target_keys @ readonly_keys))"

text \<open>Aliases name the same key: \<open>src\<close> is \<open>source\<close>, \<open>dst\<close> is \<open>target\<close>, \<open>ro\<close> is \<open>readonly\<close>.\<close>

definition canonical_key :: "string \<Rightarrow> string" where
  "canonical_key key =
     (if key \<in> set source_keys then ''source''
      else if key \<in> set target_keys then ''target''
      else if key \<in> set readonly_keys then ''readonly''
      else key)"

definition option_keys :: "string \<Rightarrow> string list" where
  "option_keys mountString = map (canonical_key \<circ> option_key) (split_on CHR '','' mountString)"

text \<open>The first segment of a mount string whose key is not recognised, if there is one.\<close>

definition first_unrecognized :: "string \<Rightarrow> string option" where
  "first_unrecognized mountString =
     find (\<lambda>option. \<not> recognized (option_key option)) (split_on CHR '','' mountString)"

text \<open>The pieces put back together with the separator between them (\<open>xs.join(sep)\<close>).\<close>

fun join_with :: "char \<Rightarrow> string list \<Rightarrow> string" where
  "join_with sep [] = []"
| "join_with sep [x] = x"
| "join_with sep (x # y # ys) = x @ sep # join_with sep (y # ys)"

text \<open>A mount string written from a list of key and value pairs: \<open>k=v,k=v,...\<close>.\<close>

definition kv_segment :: "string \<times> string \<Rightarrow> string" where
  "kv_segment kv = fst kv @ ''='' @ snd kv"

definition mount_string :: "(string \<times> string) list \<Rightarrow> string" where
  "mount_string kvs = join_with CHR '','' (map kv_segment kvs)"

text \<open>A string with neither \<open>=\<close> nor \<open>,\<close> in it.\<close>

definition plain :: "string \<Rightarrow> bool" where
  "plain v = (CHR ''='' \<notin> set v \<and> CHR '','' \<notin> set v)"

text \<open>
  The value a field ends with: the value of the last segment whose key is one of the
  field's keys, the value before the loop when there is none.
\<close>

definition last_assigned :: "string list \<Rightarrow> string list \<Rightarrow> js_value \<Rightarrow> js_value" where
  "last_assigned keys options d =
     (case filter (\<lambda>option. option_key option \<in> set keys) options of
        [] \<Rightarrow> d
      | x # xs \<Rightarrow> option_value (last (x # xs)))"

definition last_value :: "string list \<Rightarrow> (string \<times> string) list \<Rightarrow> string" where
  "last_value keys kvs =
     (case filter (\<lambda>kv. fst kv \<in> set keys) kvs of
        [] \<Rightarrow> ''''
      | x # xs \<Rightarrow> snd (last (x # xs)))"

subsection \<open>Orchestrators\<close>



text \<open>What an orchestrator makes of an exit code.\<close>

definition exit_outcome :: "collaborators \<Rightarrow> string \<Rightarrow> int \<Rightarrow> error + unit" where
  "exit_outcome env what code =
     (if code = 0 then Inr ()
      else Inl (Error (what @ '' failed with '' @ number_to_string env code)))"

text \<open>A mount that parses to type \<open>bind\<close> with a source that does not exist.\<close>

definition skipped :: "collaborators \<Rightarrow> string \<Rightarrow> bool" where
  "skipped env m =
     (case parseMount m of
        Inl e \<Rightarrow> False
      | Inr mount \<Rightarrow> type mount = JSString ''bind'' \<and> \<not> existsSync env (source mount))"

definition mount_arguments :: "collaborators \<Rightarrow> string \<Rightarrow> string list" where
  "mount_arguments env m = (if skipped env m then [] else [''--mount'', m])"

definition skip_message :: "string \<Rightarrow> string" where
  "skip_message m =
     ''Skipping mount as source does not exist: '' @ [CHR 0x27] @ m @ [CHR 0x27]"

definition config_path :: "collaborators \<Rightarrow> string \<Rightarrow> string" where
  "config_path env folder = path_join env [folder, ''.devcontainer/devcontainer.json'']"

definition run_folder :: "collaborators \<Rightarrow> string \<Rightarrow> string \<Rightarrow> string" where
  "run_folder env checkoutPath subFolder =
     path_join env [getAbsolutePath env checkoutPath (cwd env), subFolder]"

text \<open>
  The argument vector of \<open>docker run\<close>, with the arguments of the configuration's mounts
  given as \<open>mount_part\<close>.
\<close>

definition run_arguments ::
  "collaborators \<Rightarrow> DevContainerConfig \<Rightarrow> string \<Rightarrow> string \<Rightarrow> string \<Rightarrow> string
     \<Rightarrow> string list option \<Rightarrow> string list \<Rightarrow> string list" where
  "run_arguments env cfg imageName checkoutPath subFolder command envs mount_part =
     [''run'', ''--mount'',
        ''type=bind,src='' @ getAbsolutePath env checkoutPath (cwd env) @ '',dst=''
          @ getWorkspaceFolder env cfg (run_folder env checkoutPath subFolder)]
     @ mount_part
     @ [''--workdir'', getWorkspaceFolder env cfg (run_folder env checkoutPath subFolder),
        ''--user'', getRemoteUser env cfg]
     @ (case runArgs cfg of None \<Rightarrow> [] | Some ras \<Rightarrow> map (substituteValues env) ras)
     @ (case envs of None \<Rightarrow> [] | Some es \<Rightarrow> concat (map (\<lambda>e. [''--env'', e]) es))
     @ [imageName @ '':latest'', ''bash'', ''-c'', ''sudo chown -R $(whoami) . && '' @ command]"

subsection \<open>A sample configuration\<close>

text \<open>
  A configuration with two build arguments and three mounts, and collaborators that
  load it from any path: the runner returns the given exit code, substitution changes
  nothing, \<open>path_join\<close> puts \<open>/\<close> between the non-empty parts, only \<open>/sock\<close>
  exists, and the one large number printed right is \<open>10^21\<close>.
\<close>

definition sample_config :: DevContainerConfig where
  "sample_config =
     \<lparr>build = Some \<lparr>dockerfile = Some ''Dockerfile'', buildContext = None,
                     args = Some [(''VARIANT'', ''3.9''), (''NODE'', ''lts'')]\<rparr>,
      mounts = Some [''type=bind,source=/sock,target=/sock'',
                     ''src=cache,target=/c'',
                     ''type=bind,source=/gone,target=/g''],
      runArgs = Some [''--init''],
      workspaceFolder = None,
      remoteUser = Some ''dev''\<rparr>"

definition no_dockerfile_config :: DevContainerConfig where
  "no_dockerfile_config = sample_config\<lparr>build := None\<rparr>"

definition sample_collaborators :: "DevContainerConfig \<Rightarrow> int \<Rightarrow> collaborators" where
  "sample_collaborators cfg code =
     \<lparr>exec = (\<lambda>cmd argv. Inr code),
      loadFromFile = (\<lambda>p. Inr cfg),
      getDockerfile = (\<lambda>c. case build c of None \<Rightarrow> None | Some b \<Rightarrow> dockerfile b),
      getContext = (\<lambda>c. case build c of None \<Rightarrow> None | Some b \<Rightarrow> buildContext b),
      getWorkspaceFolder = (\<lambda>c folder. ''/workspaces/app''),
      getRemoteUser = (\<lambda>c. case remoteUser c of None \<Rightarrow> ''root'' | Some u \<Rightarrow> u),
      substituteValues = (\<lambda>s. s),
      getAbsolutePath = (\<lambda>p base. p),
      path_join = (\<lambda>parts. join_with CHR ''/'' (filter (\<lambda>p. p \<noteq> []) parts)),
      cwd = ''/home'',
      existsSync = (\<lambda>v. v = JSString ''/sock''),
      number_exponent_form = (\<lambda>i. (if i < 0 then ''-'' else []) @ ''1e+21'')\<rparr>"

definition empty_world :: world where
  "empty_world = \<lparr>exec_calls = [], console = []\<rparr>"

section \<open>Splitting and joining\<close>

lemma split_on_not_Nil: "split_on sep s \<noteq> []"
  by (induction s) (auto split: list.splits)

lemma hd_split_on: "hd (split_on sep s) = takeWhile (\<lambda>c. c \<noteq> sep) s"
  by (induction s) (auto split: list.splits simp: split_on_not_Nil)

lemma js_index_split_on_0:
  "js_index (split_on sep s) 0 = JSString (takeWhile (\<lambda>c. c \<noteq> sep) s)"
  using split_on_not_Nil [of sep s] hd_split_on [of sep s]
  by (cases "split_on sep s") (auto simp: js_index_def)

lemma split_on_no_sep: "x \<in> set (split_on sep s) \<Longrightarrow> sep \<notin> set x"
  by (induction s arbitrary: x) (auto split: if_splits list.splits)

lemma split_on_plain: "sep \<notin> set x \<Longrightarrow> split_on sep x = [x]"
  by (induction x) auto

lemma split_on_append_sep:
  "sep \<notin> set x \<Longrightarrow> split_on sep (x @ sep # s) = x # split_on sep s"
  by (induction x) auto

lemma split_on_join_with:
  "xs \<noteq> [] \<Longrightarrow> \<forall>x \<in> set xs. sep \<notin> set x \<Longrightarrow> split_on sep (join_with sep xs) = xs"
  by (induction sep xs rule: join_with.induct) (auto simp: split_on_plain split_on_append_sep)

lemma split_on_kv:
  "sep \<notin> set k \<Longrightarrow> sep \<notin> set v \<Longrightarrow> split_on sep (k @ sep # v) = [k, v]"
  by (simp add: split_on_append_sep split_on_plain)

section \<open>The loop of the mount parser\<close>

text \<open>The \<open>switch\<close>, read on the key of the segment.\<close>

lemma mount_option_key:
  "mount_option st option =
     (if option_key option \<in> set type_keys then Inr (st\<lparr>type := option_value option\<rparr>)
      else if option_key option \<in> set source_keys
        then Inr (st\<lparr>source := option_value option\<rparr>)
      else if option_key option \<in> set target_keys
        then Inr (st\<lparr>target := option_value option\<rparr>)
      else if option_key option \<in> set readonly_keys then Inr st
      else Inl (Error (''Unhandled mount option '' @ [CHR 0x27] @ option_key option @ [CHR 0x27])))"
  by (simp add: mount_option_def Let_def js_index_split_on_0 option_key_def option_value_def
      type_keys_def source_keys_def target_keys_def readonly_keys_def quoted_def)

lemma disjoint_keys:
  "k \<in> set type_keys \<Longrightarrow> k \<notin> set source_keys \<and> k \<notin> set target_keys"
  "k \<in> set source_keys \<Longrightarrow> k \<notin> set type_keys \<and> k \<notin> set target_keys"
  "k \<in> set target_keys \<Longrightarrow> k \<notin> set type_keys \<and> k \<notin> set source_keys"
  "k \<in> set readonly_keys \<Longrightarrow>
     k \<notin> set type_keys \<and> k \<notin> set source_keys \<and> k \<notin> set target_keys"
  by (auto simp: type_keys_def source_keys_def target_keys_def readonly_keys_def)

lemma parse_options_append:
  "parse_options st (xs @ ys) =
     (case parse_options st xs of Inl e \<Rightarrow> Inl e | Inr st' \<Rightarrow> parse_options st' ys)"
  by (induction xs arbitrary: st) (auto split: sum.splits)

lemma mount_option_recognized:
  "recognized (option_key option) \<Longrightarrow> \<exists>st'. mount_option st option = Inr st'"
  by (auto simp: mount_option_key recognized_def)

lemma mount_option_unrecognized:
  "\<not> recognized (option_key option) \<Longrightarrow>
     mount_option st option =
       Inl (Error (''Unhandled mount option '' @ [CHR 0x27] @ option_key option @ [CHR 0x27]))"
  by (auto simp: mount_option_key recognized_def)

lemma mount_option_readonly:
  "option_key option \<in> set readonly_keys \<Longrightarrow> mount_option st option = Inr st"
  using disjoint_keys(4) [of "option_key option"] by (simp add: mount_option_key)

lemma parse_options_recognized:
  "\<forall>option \<in> set options. recognized (option_key option) \<Longrightarrow>
     \<exists>st'. parse_options st options = Inr st'"
proof (induction options arbitrary: st)
  case Nil
  show ?case by simp
next
  case (Cons option options)
  from Cons.prems obtain st1 where "mount_option st option = Inr st1"
    using mount_option_recognized [of option st] by auto
  with Cons show ?case by simp
qed

lemma parse_options_first_unrecognized:
  assumes "\<forall>option \<in> set pre. recognized (option_key option)"
    and "\<not> recognized (option_key bad)"
  shows "parse_options st (pre @ bad # post) =
     Inl (Error (''Unhandled mount option '' @ [CHR 0x27] @ option_key bad @ [CHR 0x27]))"
proof -
  obtain st1 where "parse_options st pre = Inr st1"
    using parse_options_recognized [OF assms(1)] by blast
  then show ?thesis
    by (simp add: parse_options_append mount_option_unrecognized [OF assms(2)])
qed

lemma parse_options_unrecognized:
  assumes "\<exists>option \<in> set options. \<not> recognized (option_key option)"
  shows "isl (parse_options st options)"
proof -
  from assms obtain pre bad post where "options = pre @ bad # post"
    "\<not> recognized (option_key bad)" "\<forall>option \<in> set pre. recognized (option_key option)"
    using split_list_first_prop [of options "\<lambda>option. \<not> recognized (option_key option)"]
    by auto
  then show ?thesis
    by (simp add: parse_options_first_unrecognized)
qed

lemma parse_options_drop_readonly:
  "option_key ro \<in> set readonly_keys \<Longrightarrow>
     parse_options st (pre @ ro # post) = parse_options st (pre @ post)"
  by (simp add: parse_options_append mount_option_readonly split: sum.splits)

lemma last_assigned_Nil [simp]: "last_assigned keys [] d = d"
  by (simp add: last_assigned_def)

lemma last_assigned_Cons:
  "last_assigned keys (option # options) d =
     last_assigned keys options
       (if option_key option \<in> set keys then option_value option else d)"
  by (simp add: last_assigned_def split: list.splits)

text \<open>
  When every key is recognised the loop ends normally, and each field holds what its
  last segment assigned.
\<close>

lemma parse_options_all_recognized:
  "\<forall>option \<in> set options. recognized (option_key option) \<Longrightarrow>
     parse_options st options =
       Inr \<lparr>type = last_assigned type_keys options (type st),
            source = last_assigned source_keys options (source st),
            target = last_assigned target_keys options (target st)\<rparr>"
proof (induction options arbitrary: st)
  case Nil
  show ?case by simp
next
  case (Cons option options)
  from Cons.prems have rest: "\<forall>option \<in> set options. recognized (option_key option)"
    and this_one: "recognized (option_key option)" by simp_all
  from this_one consider
      (t) "option_key option \<in> set type_keys"
    | (s) "option_key option \<in> set source_keys"
    | (g) "option_key option \<in> set target_keys"
    | (r) "option_key option \<in> set readonly_keys"
    by (auto simp: recognized_def)
  then show ?case
  proof cases
    case t
    then show ?thesis
      using disjoint_keys(1) [OF t]
      by (simp add: mount_option_key Cons.IH [OF rest] last_assigned_Cons)
  next
    case s
    then show ?thesis
      using disjoint_keys(2) [OF s]
      by (simp add: mount_option_key Cons.IH [OF rest] last_assigned_Cons)
  next
    case g
    then show ?thesis
      using disjoint_keys(3) [OF g]
      by (simp add: mount_option_key Cons.IH [OF rest] last_assigned_Cons)
  next
    case r
    then show ?thesis
      using disjoint_keys(4) [OF r]
      by (simp add: mount_option_key Cons.IH [OF rest] last_assigned_Cons)
  qed
qed

text \<open>With an unrecognised key, the loop throws at the first one.\<close>

lemma parse_options_find_unrecognized:
  "find (\<lambda>option. \<not> recognized (option_key option)) options = Some bad \<Longrightarrow>
     parse_options st options =
       Inl (Error (''Unhandled mount option '' @ [CHR 0x27] @ option_key bad @ [CHR 0x27]))"
proof (induction options arbitrary: st)
  case Nil
  then show ?case by simp
next
  case (Cons option options)
  show ?case
  proof (cases "recognized (option_key option)")
    case True
    then obtain st1 where "mount_option st option = Inr st1"
      using mount_option_recognized by blast
    with True Cons show ?thesis by simp
  next
    case False
    with Cons.prems have "bad = option" by simp
    with False show ?thesis by (simp add: mount_option_unrecognized)
  qed
qed

lemma find_unrecognized_None:
  "find (\<lambda>option. \<not> recognized (option_key option)) options = None \<longleftrightarrow>
     (\<forall>option \<in> set options. recognized (option_key option))"
  by (auto simp: find_None_iff)

lemma find_perm_None:
  "mset xs = mset ys \<Longrightarrow> find P xs = None \<longleftrightarrow> find P ys = None"
  by (metis find_None_iff mset_eq_setD)

subsection \<open>Segments of the form key=value\<close>

lemma kv_segment_key:
  "CHR ''='' \<notin> set (fst kv) \<Longrightarrow> option_key (kv_segment kv) = fst kv"
  by (auto simp: option_key_def kv_segment_def takeWhile_tail)

lemma kv_segment_value:
  "CHR ''='' \<notin> set (fst kv) \<Longrightarrow> CHR ''='' \<notin> set (snd kv) \<Longrightarrow>
     option_value (kv_segment kv) = JSString (snd kv)"
  by (simp add: option_value_def kv_segment_def split_on_kv js_index_def)

lemma kv_segment_no_comma:
  "plain (fst kv) \<Longrightarrow> plain (snd kv) \<Longrightarrow> CHR '','' \<notin> set (kv_segment kv)"
  by (simp add: kv_segment_def plain_def)

lemma value_key_plain: "k \<in> set value_keys \<Longrightarrow> plain k"
  by (auto simp: value_keys_def type_keys_def source_keys_def target_keys_def plain_def)

lemma value_key_recognized: "k \<in> set value_keys \<Longrightarrow> recognized k"
  by (auto simp: value_keys_def recognized_def)

lemma last_assigned_kv:
  assumes "\<forall>kv \<in> set kvs. plain (fst kv) \<and> plain (snd kv)"
  shows "last_assigned keys (map kv_segment kvs) (JSString d) =
     JSString (case filter (\<lambda>kv. fst kv \<in> set keys) kvs of
        [] \<Rightarrow> d
      | x # xs \<Rightarrow> snd (last (x # xs)))"
  using assms
proof (induction kvs arbitrary: d)
  case Nil
  show ?case by simp
next
  case (Cons kv kvs)
  from Cons.prems have eq: "CHR ''='' \<notin> set (fst kv)" "CHR ''='' \<notin> set (snd kv)"
    by (simp_all add: plain_def)
  from Cons.prems have rest: "\<forall>kv \<in> set kvs. plain (fst kv) \<and> plain (snd kv)"
    by simp
  show ?case
    by (simp add: last_assigned_Cons kv_segment_key [OF eq(1)] kv_segment_value [OF eq]
        Cons.IH [OF rest] split: list.splits)
qed

subsection \<open>Permuted segments\<close>

lemma filter_at_most_one:
  "distinct (map g xs) \<Longrightarrow> \<forall>x \<in> set xs. P x \<longrightarrow> g x = c \<Longrightarrow> length (filter P xs) \<le> 1"
proof (induction xs)
  case Nil
  show ?case by simp
next
  case (Cons x xs)
  show ?case
  proof (cases "P x")
    case False
    with Cons show ?thesis by simp
  next
    case True
    with Cons.prems have "\<forall>y \<in> set xs. \<not> P y"
      by (metis distinct.simps(2) image_eqI list.set_intros(1) list.set_intros(2)
          list.simps(9) set_map)
    then have "filter P xs = []" by (simp add: filter_empty_conv)
    with True show ?thesis by simp
  qed
qed

lemma filter_perm_at_most_one:
  assumes "mset xs = mset ys" and "length (filter P xs) \<le> 1"
  shows "filter P ys = filter P xs"
proof -
  from assms(1) have m: "mset (filter P ys) = mset (filter P xs)"
    by (metis mset_filter)
  show ?thesis
  proof (cases "filter P xs")
    case Nil
    with m show ?thesis by simp
  next
    case (Cons x rest)
    with assms(2) have "rest = []" by simp
    with Cons m have "mset (filter P ys) = {#x#}" by simp
    then have "filter P ys = [x]" by (metis mset_single_iff)
    with Cons \<open>rest = []\<close> show ?thesis by simp
  qed
qed

lemma canonical_key_class:
  "key \<in> set type_keys \<Longrightarrow> canonical_key key = ''type''"
  "key \<in> set source_keys \<Longrightarrow> canonical_key key = ''source''"
  "key \<in> set target_keys \<Longrightarrow> canonical_key key = ''target''"
  by (auto simp: canonical_key_def type_keys_def source_keys_def target_keys_def
      readonly_keys_def)

lemma last_assigned_perm:
  assumes "mset xs = mset ys"
    and "distinct (map (canonical_key \<circ> option_key) xs)"
    and "\<forall>k \<in> set keys. canonical_key k = c"
  shows "last_assigned keys ys d = last_assigned keys xs d"
proof -
  have "length (filter (\<lambda>option. option_key option \<in> set keys) xs) \<le> 1"
    using assms(2,3)
    by (intro filter_at_most_one [where g = "canonical_key \<circ> option_key" and c = c]) auto
  from filter_perm_at_most_one [OF assms(1) this] show ?thesis
    by (simp add: last_assigned_def)
qed

section \<open>The orchestrators, step by step\<close>

lemma exec_checked_result:
  "fst (exec_checked env what argv w) =
     (case exec env ''docker'' argv of Inl e \<Rightarrow> Inl e | Inr code \<Rightarrow> exit_outcome env what code)"
  by (simp add: exec_checked_def call_exec_def exit_outcome_def split: sum.splits)

lemma exec_checked_world:
  "snd (exec_checked env what argv w) = w\<lparr>exec_calls := exec_calls w @ [(''docker'', argv)]\<rparr>"
  by (simp add: exec_checked_def call_exec_def split: sum.splits)


lemma push_build_args_concat:
  "push_build_args env kvs argv =
     argv @ concat (map (\<lambda>(name, raw).
       [''--build-arg'', name @ ''='' @ substituteValues env raw]) kvs)"
  by (induction env kvs argv rule: push_build_args.induct) simp_all

lemma push_envs_concat:
  "push_envs es argv = argv @ concat (map (\<lambda>e. [''--env'', e]) es)"
  by (induction es arbitrary: argv) simp_all


lemma push_mounts_all_parse:
  "\<forall>m \<in> set ms. \<not> isl (parseMount m) \<Longrightarrow>
     push_mounts env ms argv w =
       (Inr (argv @ concat (map (mount_arguments env) ms)),
        w\<lparr>console := console w @ map skip_message (filter (skipped env) ms)\<rparr>)"
proof (induction ms arbitrary: argv w)
  case Nil
  show ?case by simp
next
  case (Cons m ms)
  from Cons.prems obtain mount where m: "parseMount m = Inr mount"
    by (cases "parseMount m") auto
  from Cons.prems have rest: "\<forall>m \<in> set ms. \<not> isl (parseMount m)" by simp
  show ?case
    by (simp add: m Cons.IH [OF rest] skipped_def mount_arguments_def skip_message_def
        console_log_def quoted_def)
qed



subsection \<open>Decimal numerals\<close>












subsection \<open>The sample configuration, evaluated\<close>

lemma sample_mounts_parse:
  "parseMount ''type=bind,source=/sock,target=/sock'' =
     Inr \<lparr>type = JSString ''bind'', source = JSString ''/sock'', target = JSString ''/sock''\<rparr>"
  "parseMount ''src=cache,target=/c'' =
     Inr \<lparr>type = JSString [], source = JSString ''cache'', target = JSString ''/c''\<rparr>"
  "parseMount ''type=bind,source=/gone,target=/g'' =
     Inr \<lparr>type = JSString ''bind'', source = JSString ''/gone'', target = JSString ''/g''\<rparr>"
  by (simp_all add: parseMount_def mount_option_def js_index_def Let_def)

lemma sample_collaborators_simps:
  "exec (sample_collaborators cfg code) cmd argv = Inr code"
  "loadFromFile (sample_collaborators cfg code) p = Inr cfg"
  "getDockerfile (sample_collaborators cfg code) c =
     (case build c of None \<Rightarrow> None | Some b \<Rightarrow> dockerfile b)"
  "getContext (sample_collaborators cfg code) c =
     (case build c of None \<Rightarrow> None | Some b \<Rightarrow> buildContext b)"
  "getWorkspaceFolder (sample_collaborators cfg code) c folder = ''/workspaces/app''"
  "getRemoteUser (sample_collaborators cfg code) c =
     (case remoteUser c of None \<Rightarrow> ''root'' | Some u \<Rightarrow> u)"
  "substituteValues (sample_collaborators cfg code) s = s"
  "getAbsolutePath (sample_collaborators cfg code) p base = p"
  "path_join (sample_collaborators cfg code) parts =
     join_with CHR ''/'' (filter (\<lambda>p. p \<noteq> []) parts)"
  "cwd (sample_collaborators cfg code) = ''/home''"
  "existsSync (sample_collaborators cfg code) v = (v = JSString ''/sock'')"
  by (simp_all add: sample_collaborators_def)

lemma exit_outcome_samples:
  "exit_outcome env what 0 = Inr ()"
  "exit_outcome env what 2 = Inl (Error (what @ '' failed with 2''))"
  by (simp_all add: exit_outcome_def number_to_string_def digits.simps)

section \<open>Properties of the mount parser\<close>

text \<open>
  Claim C1. A mount string made of one or more comma-separated \<open>key=value\<close> segments,
  with keys among \<open>type\<close>, \<open>src\<close>, \<open>source\<close>, \<open>dst\<close>, \<open>destination\<close>, \<open>target\<close> and
  values without \<open>=\<close> and \<open>,\<close>, parses to the record whose fields hold the values of
  their keys (the last one when a key comes several times); a field whose keys do not
  appear is the empty string, not \<open>undefined\<close>.
\<close>

theorem parseMount_key_value_segments:
  assumes "kvs \<noteq> []"
    and "\<forall>kv \<in> set kvs. fst kv \<in> set value_keys \<and> plain (snd kv)"
  shows "parseMount (mount_string kvs) =
     Inr \<lparr>type = JSString (last_value type_keys kvs),
          source = JSString (last_value source_keys kvs),
          target = JSString (last_value target_keys kvs)\<rparr>"
proof -
  from assms(2) have pl: "\<forall>kv \<in> set kvs. plain (fst kv) \<and> plain (snd kv)"
    using value_key_plain by blast
  then have "\<forall>x \<in> set (map kv_segment kvs). CHR '','' \<notin> set x"
    by (auto simp: kv_segment_no_comma)
  with assms(1) have split: "split_on CHR '','' (mount_string kvs) = map kv_segment kvs"
    unfolding mount_string_def by (intro split_on_join_with) simp_all
  have "\<forall>option \<in> set (map kv_segment kvs). recognized (option_key option)"
  proof
    fix option assume "option \<in> set (map kv_segment kvs)"
    then obtain kv where kv: "kv \<in> set kvs" "option = kv_segment kv" by auto
    with assms(2) pl have "fst kv \<in> set value_keys" "CHR ''='' \<notin> set (fst kv)"
      by (auto simp: plain_def)
    then show "recognized (option_key option)"
      by (simp add: kv kv_segment_key value_key_recognized)
  qed
  then show ?thesis
    unfolding parseMount_def split
    by (simp add: parse_options_all_recognized last_assigned_kv [OF pl] last_value_def)
qed

text \<open>The two examples of the specification.\<close>

theorem parseMount_key_value_segments_witness:
  "mount_string [(''type'', ''bind''), (''source'', ''/a''), (''target'', ''/b'')] =
     ''type=bind,source=/a,target=/b''
   \<and> parseMount ''type=bind,source=/a,target=/b'' =
     Inr \<lparr>type = JSString ''bind'', source = JSString ''/a'', target = JSString ''/b''\<rparr>
   \<and> mount_string [(''src'', ''home-cache''), (''target'', ''/home/vscode/.cache'')] =
     ''src=home-cache,target=/home/vscode/.cache''
   \<and> parseMount ''src=home-cache,target=/home/vscode/.cache'' =
     Inr \<lparr>type = JSString [], source = JSString ''home-cache'',
          target = JSString ''/home/vscode/.cache''\<rparr>"
proof -
  let ?a = "[(''type'', ''bind''), (''source'', ''/a''), (''target'', ''/b'')]"
  let ?b = "[(''src'', ''home-cache''), (''target'', ''/home/vscode/.cache'')]"
  have ne: "?a \<noteq> []" "?b \<noteq> []" by simp_all
  have keys: "\<forall>kv \<in> set ?a. fst kv \<in> set value_keys \<and> plain (snd kv)"
    "\<forall>kv \<in> set ?b. fst kv \<in> set value_keys \<and> plain (snd kv)"
    by (simp_all add: value_keys_def type_keys_def source_keys_def target_keys_def plain_def)
  have strs: "mount_string ?a = ''type=bind,source=/a,target=/b''"
    "mount_string ?b = ''src=home-cache,target=/home/vscode/.cache''"
    by (simp_all add: mount_string_def kv_segment_def)
  have vals: "last_value type_keys ?a = ''bind''" "last_value source_keys ?a = ''/a''"
    "last_value target_keys ?a = ''/b''" "last_value type_keys ?b = []"
    "last_value source_keys ?b = ''home-cache''"
    "last_value target_keys ?b = ''/home/vscode/.cache''"
    by (simp_all add: last_value_def type_keys_def source_keys_def target_keys_def)
  note a = parseMount_key_value_segments [OF ne(1) keys(1), unfolded strs vals]
  note b = parseMount_key_value_segments [OF ne(2) keys(2), unfolded strs vals]
  from strs(1) a strs(2) b show ?thesis by (intro conjI)
qed

text \<open>
  Claim C2. When the key of a segment (the text before its first \<open>=\<close>) is none of
  \<open>type\<close>, \<open>src\<close>, \<open>source\<close>, \<open>dst\<close>, \<open>destination\<close>, \<open>target\<close>, \<open>readonly\<close>, \<open>ro\<close>,
  \<open>parseMount\<close> fails, with the error \<open>Unhandled mount option\<close> followed by the key
  of the first such segment between single quotes; the segments after it play no part,
  and no record is returned.
\<close>

theorem parseMount_unrecognized_key:
  assumes "split_on CHR '','' mountString = pre @ bad # post"
    and "\<forall>option \<in> set pre. recognized (option_key option)"
    and "\<not> recognized (option_key bad)"
  shows "parseMount mountString =
     Inl (Error (''Unhandled mount option '' @ [CHR 0x27] @ option_key bad @ [CHR 0x27]))"
  unfolding parseMount_def assms(1)
  by (rule parse_options_first_unrecognized [OF assms(2,3)])

theorem parseMount_unrecognized_key_witness:
  "split_on CHR '','' ''type=bind,unknown=x'' = [''type=bind''] @ ''unknown=x'' # []
   \<and> recognized (option_key ''type=bind'')
   \<and> \<not> recognized (option_key ''unknown=x'')
   \<and> option_key ''unknown=x'' = ''unknown''
   \<and> parseMount ''type=bind,unknown=x'' =
       Inl (Error (''Unhandled mount option '' @ [CHR 0x27] @ ''unknown'' @ [CHR 0x27]))"
proof -
  have a: "split_on CHR '','' ''type=bind,unknown=x'' = [''type=bind''] @ ''unknown=x'' # []"
    by simp
  have b: "recognized (option_key ''type=bind'')"
    by (simp add: recognized_def option_key_def type_keys_def)
  then have b': "\<forall>option \<in> set [''type=bind'']. recognized (option_key option)"
    by simp
  have c: "\<not> recognized (option_key ''unknown=x'')"
    by (simp add: recognized_def option_key_def type_keys_def source_keys_def
        target_keys_def readonly_keys_def)
  have d: "option_key ''unknown=x'' = ''unknown''"
    by (simp add: option_key_def)
  note e = parseMount_unrecognized_key [OF a b' c, unfolded d]
  from a b c d e show ?thesis by (intro conjI)
qed

text \<open>
  Claim C8, amended. Take two mount strings whose segments are permutations of each
  other, with no key (aliases counted as one key) repeated. When every key is
  recognised, \<open>parseMount\<close> returns the same record for both. When some key is not, it
  fails for both, and the error of each string is \<open>Unhandled mount option\<close> followed by
  the key, between single quotes, of the first segment of that string whose key is not
  recognised; so the two errors may differ.
\<close>

theorem parseMount_order_insensitive:
  assumes "mset (split_on CHR '','' s1) = mset (split_on CHR '','' s2)"
    and "distinct (option_keys s1)"
  shows "case first_unrecognized s1 of
           None \<Rightarrow> parseMount s2 = parseMount s1 \<and> \<not> isl (parseMount s1)
         | Some bad1 \<Rightarrow>
             parseMount s1 =
               Inl (Error (''Unhandled mount option '' @ [CHR 0x27] @ option_key bad1
                           @ [CHR 0x27]))
             \<and> (case first_unrecognized s2 of
                   None \<Rightarrow> False
                 | Some bad2 \<Rightarrow>
                     parseMount s2 =
                       Inl (Error (''Unhandled mount option '' @ [CHR 0x27] @ option_key bad2
                                   @ [CHR 0x27])))"
proof (cases "first_unrecognized s1")
  case None
  then have True1: "\<forall>option \<in> set (split_on CHR '','' s1). recognized (option_key option)"
    by (simp add: first_unrecognized_def find_unrecognized_None)
  from assms(1) have "set (split_on CHR '','' s2) = set (split_on CHR '','' s1)"
    by (metis mset_eq_setD)
  with True1 have True2: "\<forall>option \<in> set (split_on CHR '','' s2). recognized (option_key option)"
    by simp
  from assms(2) have d: "distinct (map (canonical_key \<circ> option_key) (split_on CHR '','' s1))"
    by (simp add: option_keys_def)
  have same: "last_assigned type_keys (split_on CHR '','' s2) v =
      last_assigned type_keys (split_on CHR '','' s1) v"
    "last_assigned source_keys (split_on CHR '','' s2) v =
      last_assigned source_keys (split_on CHR '','' s1) v"
    "last_assigned target_keys (split_on CHR '','' s2) v =
      last_assigned target_keys (split_on CHR '','' s1) v" for v
    using last_assigned_perm [OF assms(1) d] canonical_key_class by blast+
  have "parseMount s2 = parseMount s1"
    unfolding parseMount_def
    by (simp add: parse_options_all_recognized [OF True1] parse_options_all_recognized [OF True2]
        same)
  moreover have "\<not> isl (parseMount s1)"
    unfolding parseMount_def by (simp add: parse_options_all_recognized [OF True1])
  ultimately show ?thesis using None by simp
next
  case (Some bad1)
  then have e1: "parseMount s1 =
      Inl (Error (''Unhandled mount option '' @ [CHR 0x27] @ option_key bad1 @ [CHR 0x27]))"
    unfolding parseMount_def first_unrecognized_def
    by (rule parse_options_find_unrecognized)
  from Some assms(1) obtain bad2 where b2: "first_unrecognized s2 = Some bad2"
    unfolding first_unrecognized_def
    using find_perm_None [OF assms(1), of "\<lambda>option. \<not> recognized (option_key option)"]
    by (cases "find (\<lambda>option. \<not> recognized (option_key option)) (split_on CHR '','' s2)") auto
  then have e2: "parseMount s2 =
      Inl (Error (''Unhandled mount option '' @ [CHR 0x27] @ option_key bad2 @ [CHR 0x27]))"
    unfolding parseMount_def first_unrecognized_def
    by (rule parse_options_find_unrecognized)
  from Some b2 e1 e2 show ?thesis by simp
qed

text \<open>
  The example of the specification, \<open>target\<close> before \<open>source\<close> and the converse; and
  two strings with unrecognised keys, whose errors name \<open>a\<close> and \<open>b\<close>.
\<close>

theorem parseMount_order_insensitive_witness:
  "mset (split_on CHR '','' ''target=/b,source=/a'') =
     mset (split_on CHR '','' ''source=/a,target=/b'')
   \<and> distinct (option_keys ''target=/b,source=/a'')
   \<and> first_unrecognized ''target=/b,source=/a'' = None
   \<and> parseMount ''source=/a,target=/b'' = parseMount ''target=/b,source=/a''
   \<and> \<not> isl (parseMount ''target=/b,source=/a'')
   \<and> mset (split_on CHR '','' ''a=1,b=2'') = mset (split_on CHR '','' ''b=2,a=1'')
   \<and> distinct (option_keys ''a=1,b=2'')
   \<and> first_unrecognized ''a=1,b=2'' = Some ''a=1''
   \<and> first_unrecognized ''b=2,a=1'' = Some ''b=2''
   \<and> parseMount ''a=1,b=2'' =
       Inl (Error (''Unhandled mount option '' @ [CHR 0x27] @ ''a'' @ [CHR 0x27]))
   \<and> parseMount ''b=2,a=1'' =
       Inl (Error (''Unhandled mount option '' @ [CHR 0x27] @ ''b'' @ [CHR 0x27]))"
proof -
  have perm: "mset (split_on CHR '','' ''target=/b,source=/a'') =
      mset (split_on CHR '','' ''source=/a,target=/b'')"
    by simp
  have keys: "distinct (option_keys ''target=/b,source=/a'')"
    by (simp add: option_keys_def option_key_def canonical_key_def source_keys_def
        target_keys_def readonly_keys_def)
  have known: "first_unrecognized ''target=/b,source=/a'' = None"
    by (simp add: first_unrecognized_def option_key_def recognized_def source_keys_def
        target_keys_def)
  note same = parseMount_order_insensitive [OF perm keys, unfolded known option.case]
  have perm': "mset (split_on CHR '','' ''a=1,b=2'') = mset (split_on CHR '','' ''b=2,a=1'')"
    by simp
  have keys': "distinct (option_keys ''a=1,b=2'')"
    by (simp add: option_keys_def option_key_def canonical_key_def source_keys_def
        target_keys_def readonly_keys_def)
  have bad: "first_unrecognized ''a=1,b=2'' = Some ''a=1''"
    "first_unrecognized ''b=2,a=1'' = Some ''b=2''"
    by (simp_all add: first_unrecognized_def option_key_def recognized_def type_keys_def
        source_keys_def target_keys_def readonly_keys_def)
  have key: "option_key ''a=1'' = ''a''" "option_key ''b=2'' = ''b''"
    by (simp_all add: option_key_def)
  note errors = parseMount_order_insensitive [OF perm' keys', unfolded bad option.case key]
  from perm keys known same perm' keys' bad errors show ?thesis by blast
qed

text \<open>
  As first stated (the same record for any two such strings), C8 fails where keys are
  not recognised: \<open>a=1,b=2\<close> and \<open>b=2,a=1\<close> are permutations of each other without a
  repeated key, no record is returned for either, and the two errors differ.
\<close>

theorem parseMount_order_counterexample:
  "mset (split_on CHR '','' ''a=1,b=2'') = mset (split_on CHR '','' ''b=2,a=1'')
   \<and> distinct (option_keys ''a=1,b=2'')
   \<and> parseMount ''a=1,b=2'' = Inl (Error (''Unhandled mount option '' @ [CHR 0x27] @ ''a'' @ [CHR 0x27]))
   \<and> parseMount ''b=2,a=1'' = Inl (Error (''Unhandled mount option '' @ [CHR 0x27] @ ''b'' @ [CHR 0x27]))
   \<and> parseMount ''a=1,b=2'' \<noteq> parseMount ''b=2,a=1''"
  by (simp add: option_keys_def option_key_def canonical_key_def source_keys_def
      target_keys_def readonly_keys_def parseMount_def mount_option_def js_index_def Let_def
      quoted_def)

text \<open>
  Claim C9, amended. In a mount string of two segments or more, a segment whose key is
  \<open>readonly\<close> or \<open>ro\<close> (with or without a value) can be removed: \<open>parseMount\<close> gives the
  same result, record or error, for the string without it.
\<close>

theorem parseMount_readonly_removed:
  assumes "split_on CHR '','' mountString = pre @ ro # post"
    and "option_key ro \<in> set readonly_keys"
    and "pre @ post \<noteq> []"
  shows "parseMount (join_with CHR '','' (pre @ post)) = parseMount mountString"
proof -
  have "\<forall>x \<in> set (pre @ post). CHR '','' \<notin> set x"
    using split_on_no_sep [of _ "CHR '',''" mountString] assms(1) by auto
  with assms(3) have "split_on CHR '','' (join_with CHR '','' (pre @ post)) = pre @ post"
    by (intro split_on_join_with) simp_all
  then show ?thesis
    unfolding parseMount_def assms(1)
    by (simp add: parse_options_drop_readonly [OF assms(2)])
qed

theorem parseMount_readonly_removed_witness:
  "split_on CHR '','' ''type=bind,readonly,source=/a'' =
     [''type=bind''] @ ''readonly'' # [''source=/a'']
   \<and> option_key ''readonly'' \<in> set readonly_keys
   \<and> [''type=bind''] @ [''source=/a''] \<noteq> []
   \<and> join_with CHR '','' ([''type=bind''] @ [''source=/a'']) = ''type=bind,source=/a''
   \<and> parseMount ''type=bind,source=/a'' = parseMount ''type=bind,readonly,source=/a''"
proof -
  have a: "split_on CHR '','' ''type=bind,readonly,source=/a'' =
      [''type=bind''] @ ''readonly'' # [''source=/a'']"
    by simp
  have b: "option_key ''readonly'' \<in> set readonly_keys"
    by (simp add: option_key_def readonly_keys_def)
  have c: "[''type=bind''] @ [''source=/a''] \<noteq> []" by simp
  have d: "join_with CHR '','' ([''type=bind''] @ [''source=/a'']) = ''type=bind,source=/a''"
    by simp
  note e = parseMount_readonly_removed [OF a b c, unfolded d]
  from a b c d e show ?thesis by (intro conjI)
qed

text \<open>
  As first stated (for every string with such a segment), C9 fails when the read-only
  segment is the only one: \<open>ro\<close> parses to the record of three empty strings, and the
  string without the segment is the empty string, whose single segment has the key
  \<open>''\<close>, which is not recognised.
\<close>

theorem parseMount_readonly_only_counterexample:
  "split_on CHR '','' ''ro'' = [] @ ''ro'' # []
   \<and> option_key ''ro'' \<in> set readonly_keys
   \<and> join_with CHR '','' ([] @ []) = []
   \<and> parseMount ''ro'' =
       Inr \<lparr>type = JSString [], source = JSString [], target = JSString []\<rparr>
   \<and> parseMount [] = Inl (Error (''Unhandled mount option '' @ [CHR 0x27] @ [] @ [CHR 0x27]))"
  by (simp add: option_key_def readonly_keys_def parseMount_def mount_option_def js_index_def
      Let_def quoted_def)

section \<open>Properties of the orchestrators\<close>

text \<open>
  Claim C10. \<open>isDockerBuildXInstalled\<close> asks the process runner once, for \<open>docker\<close>
  with the arguments \<open>buildx\<close> and \<open>--help\<close>, and its result is \<open>true\<close> exactly when
  the exit code of that call is 0.
\<close>

theorem isDockerBuildXInstalled_once:
  "exec_calls (snd (isDockerBuildXInstalled env w)) =
     exec_calls w @ [(''docker'', [''buildx'', ''--help''])]
   \<and> (\<forall>exitCode. exec env ''docker'' [''buildx'', ''--help''] = Inr exitCode \<longrightarrow>
        fst (isDockerBuildXInstalled env w) = Inr (exitCode = 0))"
  by (simp add: isDockerBuildXInstalled_def call_exec_def split: sum.splits)

theorem isDockerBuildXInstalled_once_witness:
  "exec (sample_collaborators sample_config 0) ''docker'' [''buildx'', ''--help''] = Inr 0
   \<and> isDockerBuildXInstalled (sample_collaborators sample_config 0) empty_world =
       (Inr True, \<lparr>exec_calls = [(''docker'', [''buildx'', ''--help''])], console = []\<rparr>)
   \<and> exec (sample_collaborators sample_config 2) ''docker'' [''buildx'', ''--help''] = Inr 2
   \<and> fst (isDockerBuildXInstalled (sample_collaborators sample_config 2) empty_world) =
       Inr False"
proof -
  let ?ok = "sample_collaborators sample_config 0"
  let ?ko = "sample_collaborators sample_config 2"
  have ok: "exec ?ok ''docker'' [''buildx'', ''--help''] = Inr 0"
    and ko: "exec ?ko ''docker'' [''buildx'', ''--help''] = Inr 2"
    by (simp_all add: sample_collaborators_simps)
  from isDockerBuildXInstalled_once [of ?ok empty_world] ok
  have "snd (isDockerBuildXInstalled ?ok empty_world) =
      \<lparr>exec_calls = [(''docker'', [''buildx'', ''--help''])], console = []\<rparr>"
    and "fst (isDockerBuildXInstalled ?ok empty_world) = Inr True"
    by (simp_all add: empty_world_def isDockerBuildXInstalled_def call_exec_def)
  then have a: "isDockerBuildXInstalled ?ok empty_world =
      (Inr True, \<lparr>exec_calls = [(''docker'', [''buildx'', ''--help''])], console = []\<rparr>)"
    by (metis prod.collapse)
  from isDockerBuildXInstalled_once [of ?ko empty_world] ko
  have b: "fst (isDockerBuildXInstalled ?ko empty_world) = Inr False"
    by simp
  from ok a ko b show ?thesis by (intro conjI)
qed

text \<open>
  Claim C6. When the configuration has no Dockerfile (the accessor gives \<open>undefined\<close>;
  the empty string counts as none), \<open>buildImage\<close> fails with the error saying that only
  Dockerfile-based dev containers are supported, and the world is unchanged: the process
  runner is not asked.
\<close>

theorem buildImage_without_dockerfile:
  assumes "loadFromFile env (config_path env (path_join env [checkoutPath, subFolder])) = Inr cfg"
    and "getDockerfile env cfg = None \<or> getDockerfile env cfg = Some []"
  shows "buildImage env imageName checkoutPath subFolder w =
     (Inl (Error (''dockerfile not set in devcontainer.json - devcontainer-build-run ''
        @ ''currently only supports Dockerfile-based dev containers'')), w)"
  using assms by (auto simp: buildImage_def config_path_def Let_def dockerfile_not_set_def)

theorem buildImage_without_dockerfile_witness:
  "loadFromFile (sample_collaborators no_dockerfile_config 0)
     (config_path (sample_collaborators no_dockerfile_config 0)
        (path_join (sample_collaborators no_dockerfile_config 0) [''/src'', ''app''])) =
     Inr no_dockerfile_config
   \<and> getDockerfile (sample_collaborators no_dockerfile_config 0) no_dockerfile_config = None
   \<and> buildImage (sample_collaborators no_dockerfile_config 0) ''img'' ''/src'' ''app''
        empty_world =
      (Inl (Error (''dockerfile not set in devcontainer.json - devcontainer-build-run ''
        @ ''currently only supports Dockerfile-based dev containers'')), empty_world)
   \<and> exec_calls empty_world = []"
proof -
  let ?env = "sample_collaborators no_dockerfile_config 0"
  have load: "loadFromFile ?env (config_path ?env (path_join ?env [''/src'', ''app''])) =
      Inr no_dockerfile_config"
    by (simp add: sample_collaborators_simps(2))
  have none: "getDockerfile ?env no_dockerfile_config = None"
    by (simp add: sample_collaborators_simps(3) no_dockerfile_config_def)
  then have unset: "getDockerfile ?env no_dockerfile_config = None
      \<or> getDockerfile ?env no_dockerfile_config = Some []" ..
  note fails = buildImage_without_dockerfile [OF load unset, of "''img''" empty_world]
  have untouched: "exec_calls empty_world = []"
    by (simp add: empty_world_def)
  from load none fails untouched show ?thesis by (intro conjI)
qed

text \<open>
  Claim C5. With a Dockerfile set, the argument vector \<open>buildImage\<close> gives the process
  runner is, in this order: \<open>buildx build\<close>, \<open>--tag <image>:latest\<close>,
  \<open>--cache-from type=registry,ref=<image>:latest\<close>, \<open>--cache-to type=inline\<close>,
  \<open>--output=type=docker\<close>, one \<open>--build-arg <name>=<substituted value>\<close> for each build
  argument of the configuration's \<open>build.args\<close> (none when \<open>build\<close> or \<open>args\<close> is
  absent) in the order of its keys, \<open>-f <dockerfilePath>\<close>, and the context path last.
\<close>

theorem buildImage_argument_order:
  assumes "loadFromFile env (config_path env (path_join env [checkoutPath, subFolder])) = Inr cfg"
    and "getDockerfile env cfg = Some configDockerfile"
    and "configDockerfile \<noteq> []"
  shows "exec_calls (snd (buildImage env imageName checkoutPath subFolder w)) =
     exec_calls w @ [(''docker'',
       [''buildx'', ''build'',
        ''--tag'', imageName @ '':latest'',
        ''--cache-from'', ''type=registry,ref='' @ imageName @ '':latest'',
        ''--cache-to'', ''type=inline'',
        ''--output=type=docker'']
       @ concat (map (\<lambda>(name, raw). [''--build-arg'', name @ ''='' @ substituteValues env raw])
           (case build cfg of
              None \<Rightarrow> []
            | Some b \<Rightarrow> (case args b of None \<Rightarrow> [] | Some entries \<Rightarrow> entries)))
       @ [''-f'', path_join env [path_join env [checkoutPath, subFolder], ''.devcontainer'',
                    configDockerfile],
          path_join env [path_join env [checkoutPath, subFolder], ''.devcontainer'',
                    (case getContext env cfg of None \<Rightarrow> [] | Some c \<Rightarrow> c)]])]"
  using assms
  by (simp add: buildImage_def config_path_def Let_def exec_checked_world push_build_args_concat
      build_args_of_def)

theorem buildImage_argument_order_witness:
  "loadFromFile (sample_collaborators sample_config 0)
     (config_path (sample_collaborators sample_config 0)
        (path_join (sample_collaborators sample_config 0) [''/src'', ''app''])) =
     Inr sample_config
   \<and> getDockerfile (sample_collaborators sample_config 0) sample_config = Some ''Dockerfile''
   \<and> ''Dockerfile'' \<noteq> []
   \<and> exec_calls (snd (buildImage (sample_collaborators sample_config 0) ''img'' ''/src'' ''app''
        empty_world)) =
      [(''docker'',
        [''buildx'', ''build'', ''--tag'', ''img:latest'',
         ''--cache-from'', ''type=registry,ref=img:latest'',
         ''--cache-to'', ''type=inline'', ''--output=type=docker'',
         ''--build-arg'', ''VARIANT=3.9'', ''--build-arg'', ''NODE=lts'',
         ''-f'', ''/src/app/.devcontainer/Dockerfile'', ''/src/app/.devcontainer''])]"
proof -
  let ?env = "sample_collaborators sample_config 0"
  have load: "loadFromFile ?env (config_path ?env (path_join ?env [''/src'', ''app''])) =
      Inr sample_config"
    by (simp add: sample_collaborators_simps(2))
  have dfile: "getDockerfile ?env sample_config = Some ''Dockerfile''"
    by (simp add: sample_collaborators_simps(3) sample_config_def)
  have nonempty: "''Dockerfile'' \<noteq> []" by simp
  have ctx: "getContext ?env sample_config = None"
    by (simp add: sample_collaborators_simps(4) sample_config_def)
  have bargs: "build sample_config =
      Some \<lparr>dockerfile = Some ''Dockerfile'', buildContext = None,
            args = Some [(''VARIANT'', ''3.9''), (''NODE'', ''lts'')]\<rparr>"
    by (simp add: sample_config_def)
  from buildImage_argument_order [OF load dfile nonempty, of "''img''" empty_world]
  have "exec_calls (snd (buildImage ?env ''img'' ''/src'' ''app'' empty_world)) =
      [(''docker'',
        [''buildx'', ''build'', ''--tag'', ''img:latest'',
         ''--cache-from'', ''type=registry,ref=img:latest'',
         ''--cache-to'', ''type=inline'', ''--output=type=docker'',
         ''--build-arg'', ''VARIANT=3.9'', ''--build-arg'', ''NODE=lts'',
         ''-f'', ''/src/app/.devcontainer/Dockerfile'', ''/src/app/.devcontainer''])]"
    unfolding ctx bargs
    by (simp add: empty_world_def sample_collaborators_simps(7,9))
  with load dfile nonempty show ?thesis by (intro conjI)
qed

text \<open>
  Claim C7. The \<open>mounts\<close> parameter of \<open>runContainer\<close> has no effect: two calls that
  differ in it alone give the same result and the same world, so the same command and
  argument vector reach the process runner. Only the mounts of the loaded
  configuration are read.
\<close>

theorem runContainer_ignores_mounts_parameter:
  "runContainer env imageName checkoutPath subFolder command envs mounts1 w =
   runContainer env imageName checkoutPath subFolder command envs mounts2 w"
  by (simp add: runContainer_def)

text \<open>
  Claim C3. In \<open>runContainer\<close>, when the mounts of the configuration all parse, a mount
  of type \<open>bind\<close> whose source does not exist is skipped with a diagnostic line and no
  \<open>--mount\<close> pair; every other mount gets \<open>--mount\<close> followed by its substituted
  string, in order. Skipping never makes the call fail: the result is what the process
  runner's answer makes it.
\<close>

theorem runContainer_mounts:
  assumes "loadFromFile env (config_path env (run_folder env checkoutPath subFolder)) = Inr cfg"
    and "mounts cfg = Some ms"
    and "\<forall>m \<in> set ms. \<not> isl (parseMount (substituteValues env m))"
  shows "snd (runContainer env imageName checkoutPath subFolder command envs mounts' w) =
       w\<lparr>console := console w @
            map skip_message (filter (skipped env) (map (substituteValues env) ms)),
         exec_calls := exec_calls w @ [(''docker'',
            run_arguments env cfg imageName checkoutPath subFolder command envs
              (concat (map (mount_arguments env) (map (substituteValues env) ms))))]\<rparr>
     \<and> fst (runContainer env imageName checkoutPath subFolder command envs mounts' w) =
       (case exec env ''docker''
              (run_arguments env cfg imageName checkoutPath subFolder command envs
                (concat (map (mount_arguments env) (map (substituteValues env) ms)))) of
          Inl e \<Rightarrow> Inl e
        | Inr code \<Rightarrow> exit_outcome env ''run'' code)"
proof -
  from assms(3) have "\<forall>m \<in> set (map (substituteValues env) ms). \<not> isl (parseMount m)"
    by simp
  note pm = push_mounts_all_parse [OF this]
  show ?thesis
    using assms(1,2)
    by (simp add: runContainer_def config_path_def run_folder_def Let_def pm exec_checked_world
        exec_checked_result run_arguments_def push_envs_concat split: option.splits)
qed

text \<open>
  The sample configuration: the bind mount of \<open>/sock\<close> (which exists) and the volume
  are passed on, the bind mount of \<open>/gone\<close> is skipped with one diagnostic line, and the
  call succeeds when the runner returns 0.
\<close>

theorem runContainer_mounts_witness:
  "loadFromFile (sample_collaborators sample_config 0)
     (config_path (sample_collaborators sample_config 0)
        (run_folder (sample_collaborators sample_config 0) ''/src'' ''app'')) = Inr sample_config
   \<and> mounts sample_config = Some [''type=bind,source=/sock,target=/sock'',
        ''src=cache,target=/c'', ''type=bind,source=/gone,target=/g'']
   \<and> list_all (\<lambda>m. \<not> isl (parseMount (substituteValues (sample_collaborators sample_config 0) m)))
        [''type=bind,source=/sock,target=/sock'', ''src=cache,target=/c'',
         ''type=bind,source=/gone,target=/g'']
   \<and> runContainer (sample_collaborators sample_config 0) ''img'' ''/src'' ''app'' ''make''
        (Some [''A=1'']) None empty_world =
      (Inr (),
       \<lparr>exec_calls = [(''docker'',
          [''run'', ''--mount'', ''type=bind,src=/src,dst=/workspaces/app'',
           ''--mount'', ''type=bind,source=/sock,target=/sock'',
           ''--mount'', ''src=cache,target=/c'',
           ''--workdir'', ''/workspaces/app'', ''--user'', ''dev'', ''--init'',
           ''--env'', ''A=1'', ''img:latest'',
           ''bash'', ''-c'', ''sudo chown -R $(whoami) . && make''])],
        console = [skip_message ''type=bind,source=/gone,target=/g'']\<rparr>)"
proof -
  let ?env = "sample_collaborators sample_config 0"
  let ?ms = "[''type=bind,source=/sock,target=/sock'', ''src=cache,target=/c'',
              ''type=bind,source=/gone,target=/g'']"
  have load: "loadFromFile ?env (config_path ?env (run_folder ?env ''/src'' ''app'')) =
      Inr sample_config"
    by (simp add: sample_collaborators_simps)
  have ms: "mounts sample_config = Some ?ms"
    by (simp add: sample_config_def)
  have parse: "\<forall>m \<in> set ?ms. \<not> isl (parseMount (substituteValues ?env m))"
    by (simp add: sample_collaborators_simps sample_mounts_parse)
  then have parse': "list_all (\<lambda>m. \<not> isl (parseMount (substituteValues ?env m))) ?ms"
    by (simp only: list_all_iff)
  have skipped: "skipped ?env ''type=bind,source=/sock,target=/sock'' = False"
    "skipped ?env ''src=cache,target=/c'' = False"
    "skipped ?env ''type=bind,source=/gone,target=/g'' = True"
    by (simp_all add: skipped_def sample_mounts_parse sample_collaborators_simps)
  have cfg: "runArgs sample_config = Some [''--init'']" "remoteUser sample_config = Some ''dev''"
    by (simp_all add: sample_config_def)
  have argv: "run_arguments ?env sample_config ''img'' ''/src'' ''app'' ''make'' (Some [''A=1''])
      (concat (map (mount_arguments ?env) (map (substituteValues ?env) ?ms))) =
      [''run'', ''--mount'', ''type=bind,src=/src,dst=/workspaces/app'',
       ''--mount'', ''type=bind,source=/sock,target=/sock'',
       ''--mount'', ''src=cache,target=/c'',
       ''--workdir'', ''/workspaces/app'', ''--user'', ''dev'', ''--init'',
       ''--env'', ''A=1'', ''img:latest'',
       ''bash'', ''-c'', ''sudo chown -R $(whoami) . && make'']"
    by (simp add: run_arguments_def mount_arguments_def skipped sample_collaborators_simps cfg)
  have log: "map skip_message (filter (skipped ?env) (map (substituteValues ?env) ?ms)) =
      [skip_message ''type=bind,source=/gone,target=/g'']"
    by (simp add: skipped sample_collaborators_simps)
  from runContainer_mounts [OF load ms parse, of "''img''" "''make''" "Some [''A=1'']" None
      empty_world]
  have "snd (runContainer ?env ''img'' ''/src'' ''app'' ''make'' (Some [''A=1'']) None
        empty_world) =
      \<lparr>exec_calls = [(''docker'',
          [''run'', ''--mount'', ''type=bind,src=/src,dst=/workspaces/app'',
           ''--mount'', ''type=bind,source=/sock,target=/sock'',
           ''--mount'', ''src=cache,target=/c'',
           ''--workdir'', ''/workspaces/app'', ''--user'', ''dev'', ''--init'',
           ''--env'', ''A=1'', ''img:latest'',
           ''bash'', ''-c'', ''sudo chown -R $(whoami) . && make''])],
        console = [skip_message ''type=bind,source=/gone,target=/g'']\<rparr>"
    and "fst (runContainer ?env ''img'' ''/src'' ''app'' ''make'' (Some [''A=1'']) None
        empty_world) = Inr ()"
    unfolding argv log
    by (simp_all add: empty_world_def sample_collaborators_simps(1) exit_outcome_samples)
  then have "runContainer ?env ''img'' ''/src'' ''app'' ''make'' (Some [''A=1'']) None
        empty_world = (Inr (),
       \<lparr>exec_calls = [(''docker'',
          [''run'', ''--mount'', ''type=bind,src=/src,dst=/workspaces/app'',
           ''--mount'', ''type=bind,source=/sock,target=/sock'',
           ''--mount'', ''src=cache,target=/c'',
           ''--workdir'', ''/workspaces/app'', ''--user'', ''dev'', ''--init'',
           ''--env'', ''A=1'', ''img:latest'',
           ''bash'', ''-c'', ''sudo chown -R $(whoami) . && make''])],
        console = [skip_message ''type=bind,source=/gone,target=/g'']\<rparr>)"
    by (metis prod.collapse)
  with load ms parse' show ?thesis by (intro conjI)
qed



end
